theory Spec2Isabelle
  imports Main "HOL-Library.Word"
begin

section \<open>The HTTP client provider of pkg/infra/httpclient/httpclientprovider\<close>

text \<open>
  A shallow embedding of \<^verbatim>\<open>http_client_provider.go\<close>: the constructor \<^verbatim>\<open>New\<close>, the
  transport hook it installs, \<^verbatim>\<open>newConntrackRoundTripper\<close>, \<^verbatim>\<open>httpLoggerMiddleware\<close>
  and \<^verbatim>\<open>setDefaultTimeoutOptions\<close>.

  Values that come from other packages and that this file only passes around (a tracer,
  a proxy function, a TLS configuration, the dial function of the standard library) are
  opaque: they are elements of the type parameters \<open>'t\<close> and \<open>'x\<close>. Calls into other
  packages whose result this file only stores (\<^verbatim>\<open>conntrack.NewDialContextFunc\<close>,
  \<^verbatim>\<open>httplogger.NewHTTPLogger\<close> and its builder methods, the middleware constructors) are
  constructors of a datatype: the model records which call was made with which arguments
  and assumes nothing about what the callee computes.
\<close>

subsection \<open>Machine integers and durations\<close>

text \<open>
  Go's \<^verbatim>\<open>int\<close> on the 64-bit platforms and \<^verbatim>\<open>int64\<close> are 64-bit two's complement
  integers whose arithmetic wraps around. \<^verbatim>\<open>time.Duration\<close> is an \<^verbatim>\<open>int64\<close> counting
  nanoseconds and \<^verbatim>\<open>time.Second\<close> is the constant \<open>10\<^sup>9\<close>.
\<close>

type_synonym go_int = "64 word"
type_synonym int64 = "64 word"
type_synonym Duration = "64 word"

definition Second :: Duration where
  "Second = 1000000000"

text \<open>The conversion \<^verbatim>\<open>time.Duration(n)\<close> of an \<^verbatim>\<open>int\<close>: same width, same bits.\<close>

definition time_Duration :: "go_int \<Rightarrow> Duration" where
  "time_Duration n = scast n"

text \<open>
  A number of seconds fits a duration when its count of nanoseconds is an \<^verbatim>\<open>int64\<close>.
  The numbers of seconds that fit are those from \<open>-9223372036\<close> to \<open>9223372036\<close>.
\<close>

definition secondsFit :: "go_int \<Rightarrow> bool" where
  "secondsFit n \<longleftrightarrow>
     - (2 ^ 63) \<le> sint n * 1000000000 \<and> sint n * 1000000000 < 2 ^ 63"

subsection \<open>The policy: the fields of setting.Cfg that this file reads\<close>

text \<open>
  \<^verbatim>\<open>setting.Cfg\<close> is declared in another package. The two connection counts are assigned
  to \<^verbatim>\<open>int\<close> fields without a conversion, so they are \<^verbatim>\<open>int\<close>; the seconds fields go
  through the conversion \<^verbatim>\<open>time.Duration(...)\<close> and are taken to be \<^verbatim>\<open>int\<close> as well.
\<close>

record Cfg =
  BuildVersion :: string
  ResponseLimit :: int64
  SigV4AuthEnabled :: bool
  SigV4VerboseLogging :: bool
  DataProxyTimeout :: go_int
  DataProxyDialTimeout :: go_int
  DataProxyKeepAlive :: go_int
  DataProxyTLSHandshakeTimeout :: go_int
  DataProxyExpectContinueTimeout :: go_int
  DataProxyMaxConnsPerHost :: go_int
  DataProxyMaxIdleConns :: go_int
  DataProxyIdleConnTimeout :: go_int

subsection \<open>The default timeout policy of the SDK, a package-level variable\<close>

record TimeoutOptions =
  Timeout :: Duration
  DialTimeout :: Duration
  KeepAlive :: Duration
  TLSHandshakeTimeout :: Duration
  ExpectContinueTimeout :: Duration
  MaxConnsPerHost :: go_int
  MaxIdleConns :: go_int
  MaxIdleConnsPerHost :: go_int
  IdleConnTimeout :: Duration

text \<open>
  The global state that \<^verbatim>\<open>New\<close> touches. \<open>DefaultTimeoutOptions\<close> is the variable
  \<^verbatim>\<open>sdkhttpclient.DefaultTimeoutOptions\<close>. \<open>assigned\<close> is a history variable: every value
  that has been assigned to \<open>DefaultTimeoutOptions\<close>, oldest first. Nothing reads it; it
  is there so that the number and the order of the assignments can be stated.
\<close>

record globals =
  DefaultTimeoutOptions :: TimeoutOptions
  assigned :: "TimeoutOptions list"

definition setDefaultTimeoutOptions :: "Cfg \<Rightarrow> globals \<Rightarrow> globals" where
  "setDefaultTimeoutOptions cfg g =
     (let v = \<lparr> Timeout = time_Duration (DataProxyTimeout cfg) * Second,
                 DialTimeout = time_Duration (DataProxyDialTimeout cfg) * Second,
                 KeepAlive = time_Duration (DataProxyKeepAlive cfg) * Second,
                 TLSHandshakeTimeout = time_Duration (DataProxyTLSHandshakeTimeout cfg) * Second,
                 ExpectContinueTimeout = time_Duration (DataProxyExpectContinueTimeout cfg) * Second,
                 MaxConnsPerHost = DataProxyMaxConnsPerHost cfg,
                 MaxIdleConns = DataProxyMaxIdleConns cfg,
                 MaxIdleConnsPerHost = DataProxyMaxIdleConns cfg,
                 IdleConnTimeout = time_Duration (DataProxyIdleConnTimeout cfg) * Second \<rparr>
      in g\<lparr> DefaultTimeoutOptions := v, assigned := assigned g @ [v] \<rparr>)"

subsection \<open>Options, round trippers and the HTTP logger\<close>

text \<open>
  Of \<^verbatim>\<open>sdkhttpclient.Options\<close> this file reads the label map only. A lookup in a Go map
  returns the value and whether the key exists; a nil map has no keys.
\<close>

record Options =
  Labels :: "string \<rightharpoonup> string"

text \<open>
  An \<^verbatim>\<open>http.RoundTripper\<close> is an opaque one, or an \<^verbatim>\<open>*httplogger.HTTPLogger\<close>. A logger is
  the chain of calls that built it: \<^verbatim>\<open>NewHTTPLogger(pluginID, proxied)\<close>, then the builder
  methods \<^verbatim>\<open>WithEnabledCheck(fn)\<close> and \<^verbatim>\<open>WithPath(path)\<close> applied to it.
\<close>

datatype 'x RoundTripper =
    OpaqueRoundTripper 'x
  | LoggerRoundTripper "'x HTTPLogger"
and 'x HTTPLogger =
    NewHTTPLogger string "'x RoundTripper"
  | WithEnabledCheck "'x HTTPLogger" "unit \<Rightarrow> bool"
  | WithPath "'x HTTPLogger" string

text \<open>
  What was asked of a logger: the check given to the last \<^verbatim>\<open>WithEnabledCheck\<close> and the path
  given to the last \<^verbatim>\<open>WithPath\<close>; \<open>None\<close> when the method was never called, so that the
  library's own default applies.
\<close>

fun enabledCheck :: "'x HTTPLogger \<Rightarrow> (unit \<Rightarrow> bool) option" where
  "enabledCheck (NewHTTPLogger n p) = None"
| "enabledCheck (WithEnabledCheck hl fn) = Some fn"
| "enabledCheck (WithPath hl path) = enabledCheck hl"

fun outputPath :: "'x HTTPLogger \<Rightarrow> string option" where
  "outputPath (NewHTTPLogger n p) = None"
| "outputPath (WithEnabledCheck hl fn) = outputPath hl"
| "outputPath (WithPath hl path) = Some path"

fun pluginID :: "'x HTTPLogger \<Rightarrow> string" where
  "pluginID (NewHTTPLogger n p) = n"
| "pluginID (WithEnabledCheck hl fn) = pluginID hl"
| "pluginID (WithPath hl path) = pluginID hl"

fun proxied :: "'x HTTPLogger \<Rightarrow> 'x RoundTripper" where
  "proxied (NewHTTPLogger n p) = p"
| "proxied (WithEnabledCheck hl fn) = proxied hl"
| "proxied (WithPath hl path) = proxied hl"

text \<open>The function literal given to \<^verbatim>\<open>NamedMiddlewareFunc\<close> in \<^verbatim>\<open>httpLoggerMiddleware\<close>.\<close>

definition httpLoggerFunc :: "Options \<Rightarrow> 'x RoundTripper \<Rightarrow> 'x RoundTripper" where
  "httpLoggerFunc opts next =
     (case Labels opts ''datasource_name'' of
        None \<Rightarrow> next
      | Some datasourceName \<Rightarrow>
          (case Labels opts ''har_log_enabled'' of
             None \<Rightarrow> next
           | Some harLogEnabled \<Rightarrow>
               if harLogEnabled \<noteq> ''true'' then next
               else
                 let hl = WithEnabledCheck (NewHTTPLogger datasourceName next) (\<lambda>_. True)
                 in (case Labels opts ''har_log_path'' of
                       Some harLogPath \<Rightarrow> LoggerRoundTripper (WithPath hl harLogPath)
                     | None \<Rightarrow> LoggerRoundTripper hl)))"

subsection \<open>Middlewares\<close>

datatype Logger = log_New string

datatype ('t, 'x) Middleware =
    TracingMiddleware Logger 't
  | DataSourceMetricsMiddleware
  | NamedMiddlewareFunc string "Options \<Rightarrow> 'x RoundTripper \<Rightarrow> 'x RoundTripper"
  | SetUserAgentMiddleware string
  | BasicAuthenticationMiddleware
  | CustomHeadersMiddleware
  | ResponseLimitMiddleware int64
  | SigV4Middleware bool

definition httpLoggerMiddleware :: "('t, 'x) Middleware" where
  "httpLoggerMiddleware = NamedMiddlewareFunc ''http-logger'' httpLoggerFunc"

subsection \<open>Transports and the connection tagger\<close>

text \<open>
  A dial function is nil, one this file did not build, or the result of
  \<^verbatim>\<open>conntrack.NewDialContextFunc\<close> applied to a list of options.
\<close>

datatype 'x DialContextFunc =
    NilDialContext
  | OpaqueDialContext 'x
  | NewDialContextFunc "'x dialerOpt list"
and 'x dialerOpt =
    DialWithName string
  | DialWithDialContextFunc "'x DialContextFunc"

text \<open>
  The fields of \<^verbatim>\<open>http.Transport\<close> that configure dialling, TLS, the proxy, the
  connection pool and the timeouts; a nil function or pointer is \<open>None\<close>.
\<close>

record 'x Transport =
  Proxy :: "'x option"
  DialContext :: "'x DialContextFunc"
  TLSClientConfig :: "'x option"
  TransportTLSHandshakeTimeout :: Duration
  DisableKeepAlives :: bool
  TransportMaxIdleConns :: go_int
  TransportMaxIdleConnsPerHost :: go_int
  TransportMaxConnsPerHost :: go_int
  TransportIdleConnTimeout :: Duration
  ResponseHeaderTimeout :: Duration
  TransportExpectContinueTimeout :: Duration

text \<open>
  \<^verbatim>\<open>*http.Transport\<close> is a pointer: \<open>None\<close> is nil, \<open>Some a\<close> points to the transport
  stored at address \<open>a\<close> of the heap. Go is garbage collected, so every non-nil pointer
  refers to a live object and the heap is a total function. Reading a field through nil
  panics.
\<close>

type_synonym addr = nat
type_synonym 'x heap = "addr \<Rightarrow> 'x Transport"

datatype panic = NilPointerDereference

definition newConntrackRoundTripper ::
  "string \<Rightarrow> addr option \<Rightarrow> 'x heap \<Rightarrow> panic + (addr option \<times> 'x heap)" where
  "newConntrackRoundTripper name transport h =
     (case transport of
        None \<Rightarrow> Inl NilPointerDereference
      | Some a \<Rightarrow>
          Inr (transport,
               h(a := (h a)\<lparr> DialContext :=
                     NewDialContextFunc
                       [DialWithName name,
                        DialWithDialContextFunc (DialContext (h a))] \<rparr>)))"

subsection \<open>The provider\<close>

text \<open>
  \<^verbatim>\<open>metricutil.SanitizeLabelName\<close> is defined in another package; the functions below take
  it as the parameter \<open>SanitizeLabelName\<close>, a function that returns an error or a string.
\<close>

datatype error = Error string

text \<open>The function literal that \<^verbatim>\<open>New\<close> stores in the field \<^verbatim>\<open>ConfigureTransport\<close>.\<close>

definition configureTransport ::
  "(string \<Rightarrow> error + string) \<Rightarrow> Options \<Rightarrow> addr option \<Rightarrow> 'x heap \<Rightarrow> panic + 'x heap" where
  "configureTransport SanitizeLabelName opts transport h =
     (case Labels opts ''datasource_name'' of
        None \<Rightarrow> Inr h
      | Some datasourceName \<Rightarrow>
          (case SanitizeLabelName datasourceName of
             Inl err \<Rightarrow> Inr h
           | Inr datasourceLabelName \<Rightarrow>
               (case newConntrackRoundTripper datasourceLabelName transport h of
                  Inl p \<Rightarrow> Inl p
                | Inr (t, h') \<Rightarrow> Inr h')))"

record ('t, 'x) ProviderOptions =
  Middlewares :: "('t, 'x) Middleware list"
  ConfigureTransport :: "Options \<Rightarrow> addr option \<Rightarrow> 'x heap \<Rightarrow> panic + 'x heap"

text \<open>
  \<^verbatim>\<open>newProviderFunc\<close> is a package-level variable holding a function, so it is a
  parameter of \<open>New\<close>. The function runs in the global state that \<open>New\<close> has reached when
  it calls it, and \<open>New\<close> returns what it returns.
\<close>

definition New ::
  "(('t, 'x) ProviderOptions \<Rightarrow> globals \<Rightarrow> 'p \<times> globals) \<Rightarrow> (string \<Rightarrow> error + string) \<Rightarrow>
   Cfg \<Rightarrow> 't \<Rightarrow> globals \<Rightarrow> 'p \<times> globals" where
  "New newProviderFunc SanitizeLabelName cfg tracer g =
     (let logger = log_New ''httpclient'';
          userAgent = ''Grafana/'' @ BuildVersion cfg;
          middlewares =
            [TracingMiddleware logger tracer,
             DataSourceMetricsMiddleware,
             httpLoggerMiddleware,
             SetUserAgentMiddleware userAgent,
             BasicAuthenticationMiddleware,
             CustomHeadersMiddleware,
             ResponseLimitMiddleware (ResponseLimit cfg)];
          middlewares =
            (if SigV4AuthEnabled cfg
             then middlewares @ [SigV4Middleware (SigV4VerboseLogging cfg)]
             else middlewares);
          g = setDefaultTimeoutOptions cfg g
      in newProviderFunc
           \<lparr> Middlewares = middlewares,
             ConfigureTransport = configureTransport SanitizeLabelName \<rparr> g)"

text \<open>
  A provider function that hands back the options it was called with, and leaves the
  global state alone: it makes the arguments of the call observable.
\<close>

definition captureProvider ::
  "('t, 'x) ProviderOptions \<Rightarrow> globals \<Rightarrow> ('t, 'x) ProviderOptions \<times> globals" where
  "captureProvider opts g = (opts, g)"

subsection \<open>Concrete inputs\<close>

text \<open>
  The SDK's defaults before the first run of \<open>setDefaultTimeoutOptions\<close> are taken to be
  60 seconds of request timeout here, and a policy with Grafana's stock values: a request
  timeout of 30 seconds, 100 idle connections.
\<close>

definition sdkDefaults :: TimeoutOptions where
  "sdkDefaults =
     \<lparr> Timeout = 60 * Second, DialTimeout = 10 * Second, KeepAlive = 30 * Second,
       TLSHandshakeTimeout = 10 * Second, ExpectContinueTimeout = Second,
       MaxConnsPerHost = 0, MaxIdleConns = 100, MaxIdleConnsPerHost = 100,
       IdleConnTimeout = 90 * Second \<rparr>"

definition globals0 :: globals where
  "globals0 = \<lparr> DefaultTimeoutOptions = sdkDefaults, assigned = [] \<rparr>"

definition cfg30 :: Cfg where
  "cfg30 =
     \<lparr> BuildVersion = ''9.0.0'', ResponseLimit = 0,
       SigV4AuthEnabled = False, SigV4VerboseLogging = False,
       DataProxyTimeout = 30, DataProxyDialTimeout = 10, DataProxyKeepAlive = 30,
       DataProxyTLSHandshakeTimeout = 10, DataProxyExpectContinueTimeout = 1,
       DataProxyMaxConnsPerHost = 0, DataProxyMaxIdleConns = 100,
       DataProxyIdleConnTimeout = 90 \<rparr>"

text \<open>The same policy with request signing switched on.\<close>

definition cfgSigV4 :: Cfg where
  "cfgSigV4 = cfg30\<lparr> SigV4AuthEnabled := True, SigV4VerboseLogging := True \<rparr>"

text \<open>
  A request timeout of 9223372037 seconds: the smallest positive number of seconds whose
  nanosecond count exceeds the largest \<^verbatim>\<open>int64\<close>, 9223372036854775807.
\<close>

definition cfgHuge :: Cfg where
  "cfgHuge = cfg30\<lparr> DataProxyTimeout := 9223372037 \<rparr>"

text \<open>Label maps: an empty datasource name with logging requested, and variations.\<close>

definition optsEmptyName :: Options where
  "optsEmptyName =
     \<lparr> Labels = [''datasource_name'' \<mapsto> [], ''har_log_enabled'' \<mapsto> ''true''] \<rparr>"

definition optsLogging :: Options where
  "optsLogging =
     \<lparr> Labels = [''datasource_name'' \<mapsto> ''My DB!'', ''har_log_enabled'' \<mapsto> ''true''] \<rparr>"

definition optsLoggingPath :: Options where
  "optsLoggingPath =
     \<lparr> Labels = [''datasource_name'' \<mapsto> ''My DB!'', ''har_log_enabled'' \<mapsto> ''true'',
                 ''har_log_path'' \<mapsto> ''/tmp/out.har''] \<rparr>"

definition optsNoLogging :: Options where
  "optsNoLogging =
     \<lparr> Labels = [''datasource_name'' \<mapsto> ''My DB!'', ''har_log_enabled'' \<mapsto> ''false''] \<rparr>"

definition optsNoName :: Options where
  "optsNoName = \<lparr> Labels = [''har_log_enabled'' \<mapsto> ''true''] \<rparr>"

text \<open>A sanitizer that refuses the empty string and accepts every other one as it is.\<close>

definition rejectEmpty :: "string \<Rightarrow> error + string" where
  "rejectEmpty s = (if s = [] then Inl (Error ''label name cannot be empty'') else Inr s)"

text \<open>An opaque base round tripper, and a transport with a TLS configuration and a proxy.\<close>

definition baseRoundTripper :: "nat RoundTripper" where
  "baseRoundTripper = OpaqueRoundTripper 0"

definition transport0 :: "nat Transport" where
  "transport0 =
     \<lparr> Proxy = Some 1, DialContext = OpaqueDialContext 2, TLSClientConfig = Some 3,
       TransportTLSHandshakeTimeout = 10 * Second, DisableKeepAlives = False,
       TransportMaxIdleConns = 100, TransportMaxIdleConnsPerHost = 100,
       TransportMaxConnsPerHost = 0, TransportIdleConnTimeout = 90 * Second,
       ResponseHeaderTimeout = 0, TransportExpectContinueTimeout = Second \<rparr>"

definition heap0 :: "nat heap" where
  "heap0 = (\<lambda>_. transport0)"

text \<open>
  A provider function that reads the default request timeout at the moment it is called,
  and returns it.
\<close>

definition timeoutProvider :: "(nat, nat) ProviderOptions \<Rightarrow> globals \<Rightarrow> Duration \<times> globals" where
  "timeoutProvider opts g = (Timeout (DefaultTimeoutOptions g), g)"

text \<open>A second policy, with a request timeout of 45 seconds.\<close>

definition cfg45 :: Cfg where
  "cfg45 = cfg30\<lparr> DataProxyTimeout := 45 \<rparr>"

subsection \<open>Transports built from the default policy\<close>

text \<open>
  Modelled from the spec: the construction of a transport, which is done by the SDK and
  is not part of this file. The spec says that the default timeout policy is "consumed by
  every subsequently built transport" and that "later changes do not retroactively affect
  already-built clients". So a process is the global state together with the transports
  built so far, oldest first, each one being the timeouts it was built with; building a
  transport takes the default policy of that moment and adds it to them.
\<close>

record sdk =
  sdkGlobals :: globals
  builtTransports :: "TimeoutOptions list"

definition buildTransport :: "sdk \<Rightarrow> sdk" where
  "buildTransport p =
     p\<lparr> builtTransports := builtTransports p @ [DefaultTimeoutOptions (sdkGlobals p)] \<rparr>"

text \<open>A process that has not built a transport yet.\<close>

definition sdk0 :: sdk where
  "sdk0 = \<lparr> sdkGlobals = globals0, builtTransports = [] \<rparr>"

section \<open>Properties\<close>

text \<open>
  C10. After every run of \<open>setDefaultTimeoutOptions\<close> the default policy has
  \<open>MaxIdleConnsPerHost\<close> equal to \<open>MaxIdleConns\<close>, and both are the policy field
  \<open>DataProxyMaxIdleConns\<close>: whatever the configuration and the state before, no other
  per-host limit results.
\<close>

theorem setDefaultTimeoutOptions_idle_conns:
  "MaxIdleConnsPerHost (DefaultTimeoutOptions (setDefaultTimeoutOptions cfg g)) =
     MaxIdleConns (DefaultTimeoutOptions (setDefaultTimeoutOptions cfg g))
   \<and> MaxIdleConns (DefaultTimeoutOptions (setDefaultTimeoutOptions cfg g)) =
     DataProxyMaxIdleConns cfg"
  by (simp add: setDefaultTimeoutOptions_def Let_def)

subsection \<open>The transport-configuration resolver, continued\<close>

lemma secondsFit_iff:
  "secondsFit n \<longleftrightarrow> - 9223372036 \<le> sint n \<and> sint n \<le> 9223372036"
  by (auto simp add: secondsFit_def)

lemma seconds_wrap:
  "sint (time_Duration n * Second) = signed_take_bit 63 (sint n * 1000000000)"
  by (simp add: time_Duration_def Second_def sint_word_ariths)

lemma secondsFit_no_wrap:
  assumes "secondsFit n"
  shows "signed_take_bit 63 (sint n * 1000000000) = sint n * 1000000000"
  using assms by (intro signed_take_bit_int_eq_self) (simp_all add: secondsFit_def)

lemma DefaultTimeoutOptions_set:
  "DefaultTimeoutOptions (setDefaultTimeoutOptions cfg g) =
     \<lparr> Timeout = time_Duration (DataProxyTimeout cfg) * Second,
       DialTimeout = time_Duration (DataProxyDialTimeout cfg) * Second,
       KeepAlive = time_Duration (DataProxyKeepAlive cfg) * Second,
       TLSHandshakeTimeout = time_Duration (DataProxyTLSHandshakeTimeout cfg) * Second,
       ExpectContinueTimeout = time_Duration (DataProxyExpectContinueTimeout cfg) * Second,
       MaxConnsPerHost = DataProxyMaxConnsPerHost cfg,
       MaxIdleConns = DataProxyMaxIdleConns cfg,
       MaxIdleConnsPerHost = DataProxyMaxIdleConns cfg,
       IdleConnTimeout = time_Duration (DataProxyIdleConnTimeout cfg) * Second \<rparr>"
  by (simp add: setDefaultTimeoutOptions_def Let_def)

lemma assigned_set:
  "assigned (setDefaultTimeoutOptions cfg g) =
     assigned g @ [DefaultTimeoutOptions (setDefaultTimeoutOptions cfg g)]"
  by (simp add: setDefaultTimeoutOptions_def Let_def)

text \<open>
  C3, as stated, fails: with \<open>DataProxyTimeout\<close> equal to 9223372037 the default
  \<open>Timeout\<close> after the run is not 9223372037 seconds. The multiplication by
  \<^verbatim>\<open>time.Second\<close> wraps around and leaves a negative duration.
\<close>

theorem setDefaultTimeoutOptions_huge_counterexample:
  "sint (DataProxyTimeout cfgHuge) = 9223372037
   \<and> sint (Timeout (DefaultTimeoutOptions (setDefaultTimeoutOptions cfgHuge globals0)))
       = - 9223372036709551616"
  by (simp add: DefaultTimeoutOptions_set cfgHuge_def cfg30_def time_Duration_def Second_def)

text \<open>Building transports leaves the global state alone and adds one transport each time.\<close>

lemma buildTransport_globals:
  "sdkGlobals ((buildTransport ^^ n) p) = sdkGlobals p"
  by (induction n) (simp_all add: buildTransport_def)

lemma buildTransport_built:
  "builtTransports ((buildTransport ^^ n) p) =
     builtTransports p @ replicate n (DefaultTimeoutOptions (sdkGlobals p))"
proof (induction n)
  case 0
  show ?case by simp
next
  case (Suc n)
  have "builtTransports ((buildTransport ^^ Suc n) p) =
      builtTransports ((buildTransport ^^ n) p)
        @ [DefaultTimeoutOptions (sdkGlobals ((buildTransport ^^ n) p))]"
    by (simp add: buildTransport_def)
  also have "\<dots> = builtTransports p
      @ (replicate n (DefaultTimeoutOptions (sdkGlobals p)) @ [DefaultTimeoutOptions (sdkGlobals p)])"
    by (simp add: Suc.IH buildTransport_globals)
  also have "\<dots> = builtTransports p @ replicate (Suc n) (DefaultTimeoutOptions (sdkGlobals p))"
    by (simp only: replicate_append_same replicate_Suc)
  finally show ?case .
qed

text \<open>
  C3, amended. Provided each seconds field of the policy is between \<open>-9223372036\<close> and
  \<open>9223372036\<close>, so that its count of nanoseconds fits the 64-bit duration, after
  \<open>setDefaultTimeoutOptions cfg\<close> has run the default timeout policy equals the policy's
  seconds fields converted to durations (\<open>Timeout\<close>, \<open>DialTimeout\<close>, \<open>KeepAlive\<close>,
  \<open>TLSHandshakeTimeout\<close>, \<open>ExpectContinueTimeout\<close>, \<open>IdleConnTimeout\<close>); outside that
  range the field is the product reduced to a signed 64-bit integer. The connection counts
  \<open>MaxConnsPerHost\<close> and \<open>MaxIdleConns\<close> are copied. In a process \<open>p\<close> that builds a
  transport, runs the resolver and then builds \<open>n\<close> more transports, every transport built
  after the run has the new policy, so with \<open>DataProxyTimeout = 30\<close> a request timeout of
  30 seconds, while the transport built before the run, and every one \<open>p\<close> had already,
  keeps the timeouts it was built with.
\<close>

theorem setDefaultTimeoutOptions_policy:
  "let p1 = buildTransport p;
       p2 = p1\<lparr> sdkGlobals := setDefaultTimeoutOptions cfg (sdkGlobals p1) \<rparr>;
       p3 = (buildTransport ^^ n) p2;
       d = DefaultTimeoutOptions (sdkGlobals p2) in
     sint (Timeout d) = signed_take_bit 63 (sint (DataProxyTimeout cfg) * 1000000000)
   \<and> sint (DialTimeout d) = signed_take_bit 63 (sint (DataProxyDialTimeout cfg) * 1000000000)
   \<and> sint (KeepAlive d) = signed_take_bit 63 (sint (DataProxyKeepAlive cfg) * 1000000000)
   \<and> sint (TLSHandshakeTimeout d) =
       signed_take_bit 63 (sint (DataProxyTLSHandshakeTimeout cfg) * 1000000000)
   \<and> sint (ExpectContinueTimeout d) =
       signed_take_bit 63 (sint (DataProxyExpectContinueTimeout cfg) * 1000000000)
   \<and> sint (IdleConnTimeout d) =
       signed_take_bit 63 (sint (DataProxyIdleConnTimeout cfg) * 1000000000)
   \<and> (secondsFit (DataProxyTimeout cfg) \<longrightarrow>
        sint (Timeout d) = sint (DataProxyTimeout cfg) * 1000000000)
   \<and> (secondsFit (DataProxyDialTimeout cfg) \<longrightarrow>
        sint (DialTimeout d) = sint (DataProxyDialTimeout cfg) * 1000000000)
   \<and> (secondsFit (DataProxyKeepAlive cfg) \<longrightarrow>
        sint (KeepAlive d) = sint (DataProxyKeepAlive cfg) * 1000000000)
   \<and> (secondsFit (DataProxyTLSHandshakeTimeout cfg) \<longrightarrow>
        sint (TLSHandshakeTimeout d) = sint (DataProxyTLSHandshakeTimeout cfg) * 1000000000)
   \<and> (secondsFit (DataProxyExpectContinueTimeout cfg) \<longrightarrow>
        sint (ExpectContinueTimeout d) = sint (DataProxyExpectContinueTimeout cfg) * 1000000000)
   \<and> (secondsFit (DataProxyIdleConnTimeout cfg) \<longrightarrow>
        sint (IdleConnTimeout d) = sint (DataProxyIdleConnTimeout cfg) * 1000000000)
   \<and> MaxConnsPerHost d = DataProxyMaxConnsPerHost cfg
   \<and> MaxIdleConns d = DataProxyMaxIdleConns cfg
   \<and> d = DefaultTimeoutOptions (setDefaultTimeoutOptions cfg (sdkGlobals p))
   \<and> builtTransports p3 =
       builtTransports p @ [DefaultTimeoutOptions (sdkGlobals p)] @ replicate n d
   \<and> (\<forall>i < length (builtTransports p1). builtTransports p3 ! i = builtTransports p1 ! i)
   \<and> (\<forall>i. length (builtTransports p1) \<le> i \<and> i < length (builtTransports p3) \<longrightarrow>
          builtTransports p3 ! i = d)
   \<and> (secondsFit (DataProxyTimeout cfg) \<longrightarrow>
        (\<forall>i. length (builtTransports p1) \<le> i \<and> i < length (builtTransports p3) \<longrightarrow>
           sint (Timeout (builtTransports p3 ! i)) = sint (DataProxyTimeout cfg) * 1000000000))"
proof -
  define p1 where "p1 = buildTransport p"
  define p2 where "p2 = p1\<lparr> sdkGlobals := setDefaultTimeoutOptions cfg (sdkGlobals p1) \<rparr>"
  define p3 where "p3 = (buildTransport ^^ n) p2"
  define d where "d = DefaultTimeoutOptions (sdkGlobals p2)"
  have g1: "sdkGlobals p1 = sdkGlobals p"
    and b1: "builtTransports p1 = builtTransports p @ [DefaultTimeoutOptions (sdkGlobals p)]"
    by (simp_all add: p1_def buildTransport_def)
  have d: "d = DefaultTimeoutOptions (setDefaultTimeoutOptions cfg (sdkGlobals p))"
    by (simp add: d_def p2_def g1)
  have b2: "builtTransports p2 = builtTransports p1"
    by (simp add: p2_def)
  have b3: "builtTransports p3 = builtTransports p1 @ replicate n d"
    by (simp add: p3_def d_def buildTransport_built b2)
  have old: "\<forall>i < length (builtTransports p1). builtTransports p3 ! i = builtTransports p1 ! i"
    by (simp add: b3 nth_append)
  have new: "\<forall>i. length (builtTransports p1) \<le> i \<and> i < length (builtTransports p3) \<longrightarrow>
      builtTransports p3 ! i = d"
    by (auto simp add: b3 nth_append)
  have fields:
    "sint (Timeout d) = signed_take_bit 63 (sint (DataProxyTimeout cfg) * 1000000000)"
    "sint (DialTimeout d) = signed_take_bit 63 (sint (DataProxyDialTimeout cfg) * 1000000000)"
    "sint (KeepAlive d) = signed_take_bit 63 (sint (DataProxyKeepAlive cfg) * 1000000000)"
    "sint (TLSHandshakeTimeout d) =
       signed_take_bit 63 (sint (DataProxyTLSHandshakeTimeout cfg) * 1000000000)"
    "sint (ExpectContinueTimeout d) =
       signed_take_bit 63 (sint (DataProxyExpectContinueTimeout cfg) * 1000000000)"
    "sint (IdleConnTimeout d) =
       signed_take_bit 63 (sint (DataProxyIdleConnTimeout cfg) * 1000000000)"
    "MaxConnsPerHost d = DataProxyMaxConnsPerHost cfg"
    "MaxIdleConns d = DataProxyMaxIdleConns cfg"
    unfolding d DefaultTimeoutOptions_set by (simp_all add: seconds_wrap)
  have "builtTransports p3 =
      builtTransports p @ [DefaultTimeoutOptions (sdkGlobals p)] @ replicate n d"
    by (simp add: b3 b1)
  with d old new fields show ?thesis
    unfolding Let_def p1_def [symmetric] p2_def [symmetric] p3_def [symmetric] d_def [symmetric]
    by (simp add: secondsFit_no_wrap)
qed

theorem setDefaultTimeoutOptions_policy_witness:
  "secondsFit (DataProxyTimeout cfg30)
   \<and> sint (Timeout (DefaultTimeoutOptions (setDefaultTimeoutOptions cfg30 globals0)))
       = 30 * 1000000000
   \<and> MaxIdleConns (DefaultTimeoutOptions (setDefaultTimeoutOptions cfg30 globals0)) = 100
   \<and> map (\<lambda>t. sint (Timeout t))
        (builtTransports
          ((buildTransport ^^ 2)
            ((buildTransport sdk0)
               \<lparr> sdkGlobals := setDefaultTimeoutOptions cfg30 (sdkGlobals (buildTransport sdk0)) \<rparr>)))
       = [60 * 1000000000, 30 * 1000000000, 30 * 1000000000]"
proof -
  define d where
    "d = DefaultTimeoutOptions (setDefaultTimeoutOptions cfg30 (sdkGlobals (buildTransport sdk0)))"
  define p3 where
    "p3 = (buildTransport ^^ 2)
            ((buildTransport sdk0)
               \<lparr> sdkGlobals := setDefaultTimeoutOptions cfg30 (sdkGlobals (buildTransport sdk0)) \<rparr>)"
  note run = setDefaultTimeoutOptions_policy [where p = sdk0 and cfg = cfg30 and n = 2,
      unfolded Let_def, simplified, folded d_def p3_def]
  have fit: "secondsFit (DataProxyTimeout cfg30)"
    by (simp add: secondsFit_iff cfg30_def)
  have g: "sdkGlobals sdk0 = globals0" "builtTransports sdk0 = []"
    by (simp_all add: sdk0_def)
  have prior: "sint (Timeout (DefaultTimeoutOptions globals0)) = 60 * 1000000000"
    by (simp add: globals0_def sdkDefaults_def Second_def)
  have vals: "sint (DataProxyTimeout cfg30) = 30" "DataProxyMaxIdleConns cfg30 = 100"
    by (simp_all add: cfg30_def)
  from run have deq: "d = DefaultTimeoutOptions (setDefaultTimeoutOptions cfg30 (sdkGlobals sdk0))"
    by (elim conjE)
  from run fit have timeout: "sint (Timeout d) = sint (DataProxyTimeout cfg30) * 1000000000"
    by (elim conjE) simp
  from run have idle: "MaxIdleConns d = DataProxyMaxIdleConns cfg30"
    by (elim conjE)
  from run have built: "builtTransports p3 =
      builtTransports sdk0 @ [DefaultTimeoutOptions (sdkGlobals sdk0)] @ replicate 2 d"
    by (elim conjE) simp
  have "map (\<lambda>t. sint (Timeout t)) (builtTransports p3) =
      [60 * 1000000000, 30 * 1000000000, 30 * 1000000000]"
    by (simp add: built g prior timeout vals numeral_2_eq_2)
  moreover have "sint (Timeout (DefaultTimeoutOptions (setDefaultTimeoutOptions cfg30 globals0)))
      = 30 * 1000000000"
    using timeout by (simp add: deq g vals)
  moreover have "MaxIdleConns (DefaultTimeoutOptions (setDefaultTimeoutOptions cfg30 globals0)) = 100"
    using idle by (simp add: deq g vals)
  ultimately show ?thesis
    using fit by (simp add: p3_def)
qed

subsection \<open>The logging middleware\<close>

text \<open>A logger that wraps a round tripper is never that round tripper itself.\<close>

lemma logger_not_next:
  "LoggerRoundTripper (WithEnabledCheck (NewHTTPLogger n next) f) \<noteq> next"
proof
  assume "LoggerRoundTripper (WithEnabledCheck (NewHTTPLogger n next) f) = next"
  then have "size (LoggerRoundTripper (WithEnabledCheck (NewHTTPLogger n next) f)) = size next"
    by simp
  then show False by simp
qed

lemma logger_path_not_next:
  "LoggerRoundTripper (WithPath (WithEnabledCheck (NewHTTPLogger n next) f) p) \<noteq> next"
proof
  assume "LoggerRoundTripper (WithPath (WithEnabledCheck (NewHTTPLogger n next) f) p) = next"
  then have
    "size (LoggerRoundTripper (WithPath (WithEnabledCheck (NewHTTPLogger n next) f) p)) = size next"
    by simp
  then show False by simp
qed

lemma httpLoggerFunc_active:
  assumes "Labels opts ''datasource_name'' = Some name"
    and "Labels opts ''har_log_enabled'' = Some ''true''"
  shows "httpLoggerFunc opts next =
     LoggerRoundTripper
       (case Labels opts ''har_log_path'' of
          None \<Rightarrow> WithEnabledCheck (NewHTTPLogger name next) (\<lambda>_. True)
        | Some p \<Rightarrow> WithPath (WithEnabledCheck (NewHTTPLogger name next) (\<lambda>_. True)) p)"
  using assms by (simp add: httpLoggerFunc_def Let_def split: option.splits)

lemma httpLoggerFunc_inactive:
  assumes "Labels opts ''datasource_name'' = None
           \<or> Labels opts ''har_log_enabled'' \<noteq> Some ''true''"
  shows "httpLoggerFunc opts next = next"
  using assms by (auto simp add: httpLoggerFunc_def Let_def split: option.splits)

lemma httpLoggerFunc_active_neq:
  assumes "Labels opts ''datasource_name'' = Some name"
    and "Labels opts ''har_log_enabled'' = Some ''true''"
  shows "httpLoggerFunc opts next \<noteq> next"
  using httpLoggerFunc_active [OF assms, of "next"] logger_not_next logger_path_not_next
  by (cases "Labels opts ''har_log_path''") auto

text \<open>
  C2, as stated, fails: the claim lets the middleware activate only for a non-empty
  \<open>datasource_name\<close>, but the code tests only whether the key exists. With the label
  present and empty and \<open>har_log_enabled\<close> equal to \<open>true\<close>, the middleware does not return
  the next transport.
\<close>

theorem httpLoggerFunc_empty_name_counterexample:
  "Labels optsEmptyName ''datasource_name'' = Some []
   \<and> Labels optsEmptyName ''har_log_enabled'' = Some ''true''
   \<and> httpLoggerFunc optsEmptyName baseRoundTripper \<noteq> baseRoundTripper"
  by (simp add: optsEmptyName_def httpLoggerFunc_def baseRoundTripper_def)

text \<open>
  C2, amended. The logging middleware activates (returns something other than the next
  transport) if and only if the label \<open>datasource_name\<close> is present, empty or not, and the
  label \<open>har_log_enabled\<close> is exactly the string \<open>true\<close>; in every other case (either label
  absent, the flag any other string) it returns the next transport unchanged. When it
  activates, the result is a logger named by the datasource label that wraps the next
  transport.
\<close>

theorem httpLoggerFunc_activation:
  "(httpLoggerFunc opts next \<noteq> next \<longleftrightarrow>
      Labels opts ''datasource_name'' \<noteq> None \<and> Labels opts ''har_log_enabled'' = Some ''true'')
   \<and> (\<forall>name. Labels opts ''datasource_name'' = Some name \<and>
               Labels opts ''har_log_enabled'' = Some ''true'' \<longrightarrow>
         (\<exists>hl. httpLoggerFunc opts next = LoggerRoundTripper hl \<and>
               pluginID hl = name \<and> proxied hl = next))"
proof (intro conjI iffI allI impI)
  assume neq: "httpLoggerFunc opts next \<noteq> next"
  show "Labels opts ''datasource_name'' \<noteq> None"
  proof
    assume "Labels opts ''datasource_name'' = None"
    then have "httpLoggerFunc opts next = next"
      by (simp add: httpLoggerFunc_inactive)
    with neq show False by simp
  qed
  show "Labels opts ''har_log_enabled'' = Some ''true''"
  proof (rule ccontr)
    assume "Labels opts ''har_log_enabled'' \<noteq> Some ''true''"
    then have "httpLoggerFunc opts next = next"
      by (simp add: httpLoggerFunc_inactive)
    with neq show False by simp
  qed
next
  assume "Labels opts ''datasource_name'' \<noteq> None
          \<and> Labels opts ''har_log_enabled'' = Some ''true''"
  then show "httpLoggerFunc opts next \<noteq> next"
    using httpLoggerFunc_active_neq by auto
next
  fix name
  assume "Labels opts ''datasource_name'' = Some name
          \<and> Labels opts ''har_log_enabled'' = Some ''true''"
  then show "\<exists>hl. httpLoggerFunc opts next = LoggerRoundTripper hl
                 \<and> pluginID hl = name \<and> proxied hl = next"
    using httpLoggerFunc_active [of opts name "next"]
    by (cases "Labels opts ''har_log_path''") auto
qed

theorem httpLoggerFunc_activation_witness:
  "httpLoggerFunc optsLogging baseRoundTripper \<noteq> baseRoundTripper
   \<and> httpLoggerFunc optsEmptyName baseRoundTripper \<noteq> baseRoundTripper
   \<and> httpLoggerFunc optsNoLogging baseRoundTripper = baseRoundTripper
   \<and> httpLoggerFunc optsNoName baseRoundTripper = baseRoundTripper"
  using httpLoggerFunc_activation [of optsLogging baseRoundTripper]
    httpLoggerFunc_activation [of optsEmptyName baseRoundTripper]
    httpLoggerFunc_activation [of optsNoLogging baseRoundTripper]
    httpLoggerFunc_activation [of optsNoName baseRoundTripper]
  by (simp add: optsLogging_def optsEmptyName_def optsNoLogging_def optsNoName_def)

text \<open>
  C7. Whenever the logging middleware activates, the logger it installs was given an
  enabled-check that returns true on every call; the output path asked of it is the value
  of the label \<open>har_log_path\<close> when that label is present, and none when it is absent, so
  that the logger keeps its default location.
\<close>

theorem httpLoggerFunc_logger:
  assumes "Labels opts ''datasource_name'' = Some name"
    and "Labels opts ''har_log_enabled'' = Some ''true''"
  shows "\<exists>hl fn. httpLoggerFunc opts next = LoggerRoundTripper hl
           \<and> enabledCheck hl = Some fn \<and> (\<forall>u. fn u = True)
           \<and> outputPath hl = Labels opts ''har_log_path''"
  using httpLoggerFunc_active [OF assms, of "next"]
  by (cases "Labels opts ''har_log_path''") auto

theorem httpLoggerFunc_logger_witness:
  "(\<exists>hl fn. httpLoggerFunc optsLoggingPath baseRoundTripper = LoggerRoundTripper hl
           \<and> enabledCheck hl = Some fn \<and> (\<forall>u. fn u = True)
           \<and> outputPath hl = Some ''/tmp/out.har'')
   \<and> (\<exists>hl fn. httpLoggerFunc optsLogging baseRoundTripper = LoggerRoundTripper hl
           \<and> enabledCheck hl = Some fn \<and> (\<forall>u. fn u = True)
           \<and> outputPath hl = None)"
  using httpLoggerFunc_logger [of optsLoggingPath "''My DB!''" baseRoundTripper]
    httpLoggerFunc_logger [of optsLogging "''My DB!''" baseRoundTripper]
  by (simp add: optsLoggingPath_def optsLogging_def)

subsection \<open>The connection tagger and the transport hook\<close>

text \<open>
  C5. For every name and every transport (a non-nil pointer \<open>a\<close> into a heap \<open>h\<close>),
  \<open>newConntrackRoundTripper\<close> returns the pointer it was given, and the heap it leaves
  differs from \<open>h\<close> only in the field \<open>DialContext\<close> of the transport at \<open>a\<close>: that field
  is the conntrack dial function built from the name and the former dial function, every
  other field of the transport and every other transport is as before.
\<close>

theorem newConntrackRoundTripper_frame:
  "\<exists>h'. newConntrackRoundTripper name (Some a) h = Inr (Some a, h')
     \<and> DialContext (h' a) =
         NewDialContextFunc [DialWithName name, DialWithDialContextFunc (DialContext (h a))]
     \<and> h' a = (h a)\<lparr> DialContext := DialContext (h' a) \<rparr>
     \<and> Proxy (h' a) = Proxy (h a)
     \<and> TLSClientConfig (h' a) = TLSClientConfig (h a)
     \<and> TransportTLSHandshakeTimeout (h' a) = TransportTLSHandshakeTimeout (h a)
     \<and> DisableKeepAlives (h' a) = DisableKeepAlives (h a)
     \<and> TransportMaxIdleConns (h' a) = TransportMaxIdleConns (h a)
     \<and> TransportMaxIdleConnsPerHost (h' a) = TransportMaxIdleConnsPerHost (h a)
     \<and> TransportMaxConnsPerHost (h' a) = TransportMaxConnsPerHost (h a)
     \<and> TransportIdleConnTimeout (h' a) = TransportIdleConnTimeout (h a)
     \<and> ResponseHeaderTimeout (h' a) = ResponseHeaderTimeout (h a)
     \<and> TransportExpectContinueTimeout (h' a) = TransportExpectContinueTimeout (h a)
     \<and> (\<forall>b. b \<noteq> a \<longrightarrow> h' b = h b)"
  by (simp add: newConntrackRoundTripper_def)

theorem newConntrackRoundTripper_frame_witness:
  "\<exists>h'. newConntrackRoundTripper ''My_DB'' (Some 7) heap0 = Inr (Some 7, h')
     \<and> DialContext (h' 7) =
         NewDialContextFunc [DialWithName ''My_DB'', DialWithDialContextFunc (OpaqueDialContext 2)]
     \<and> Proxy (h' 7) = Some 1
     \<and> TLSClientConfig (h' 7) = Some 3
     \<and> TransportTLSHandshakeTimeout (h' 7) = 10 * Second
     \<and> h' 8 = transport0"
  using newConntrackRoundTripper_frame [of "''My_DB''" 7 heap0]
  by (auto simp add: heap0_def transport0_def)

text \<open>
  When the label is present, the sanitizer accepts it and the transport is not nil, the
  hook does tag the transport, under the sanitized name.
\<close>

lemma configureTransport_tags:
  assumes "Labels opts ''datasource_name'' = Some name" and "san name = Inr label"
  shows "configureTransport san opts (Some a) h =
     Inr (h(a := (h a)\<lparr> DialContext :=
            NewDialContextFunc
              [DialWithName label, DialWithDialContextFunc (DialContext (h a))] \<rparr>))"
  using assms by (simp add: configureTransport_def newConntrackRoundTripper_def)

text \<open>
  C4. For every Options value, every sanitizer, every transport pointer (nil included) and
  every heap: if the label \<open>datasource_name\<close> is absent, or the sanitizer returns an error
  for it, the hook returns normally and leaves every transport as it was. The hook has no
  error result; the sanitizer's error goes nowhere.
\<close>

theorem configureTransport_noop:
  assumes "Labels opts ''datasource_name'' = None
     \<or> (\<exists>name err. Labels opts ''datasource_name'' = Some name \<and> san name = Inl err)"
  shows "configureTransport san opts transport h = Inr h"
  using assms by (auto simp add: configureTransport_def)

theorem configureTransport_noop_witness:
  "configureTransport rejectEmpty optsNoName (Some 7) heap0 = Inr heap0
   \<and> configureTransport rejectEmpty optsEmptyName (Some 7) heap0 = Inr heap0
   \<and> configureTransport rejectEmpty optsEmptyName None heap0 = Inr heap0"
  using configureTransport_noop [of optsNoName rejectEmpty "Some 7" heap0]
    configureTransport_noop [of optsEmptyName rejectEmpty "Some 7" heap0]
    configureTransport_noop [of optsEmptyName rejectEmpty None heap0]
  by (simp add: optsNoName_def optsEmptyName_def rejectEmpty_def)

subsection \<open>The constructor\<close>

text \<open>
  What \<open>New\<close> hands to the provider function: the options, and the global state at the
  moment of the call. \<open>captureProvider\<close> returns both.
\<close>

lemma New_capture:
  "New captureProvider san cfg tracer g =
     (\<lparr> Middlewares =
          [TracingMiddleware (log_New ''httpclient'') tracer,
           DataSourceMetricsMiddleware,
           httpLoggerMiddleware,
           SetUserAgentMiddleware (''Grafana/'' @ BuildVersion cfg),
           BasicAuthenticationMiddleware,
           CustomHeadersMiddleware,
           ResponseLimitMiddleware (ResponseLimit cfg)]
          @ (if SigV4AuthEnabled cfg then [SigV4Middleware (SigV4VerboseLogging cfg)] else []),
        ConfigureTransport = configureTransport san \<rparr>,
      setDefaultTimeoutOptions cfg g)"
  by (simp add: New_def captureProvider_def Let_def)

text \<open>
  Whatever the provider function is, \<open>New\<close> returns its result on exactly those two
  arguments.
\<close>

lemma New_calls_provider:
  "New newProviderFunc san cfg tracer g =
     (case New captureProvider san cfg tracer g of (po, g1) \<Rightarrow> newProviderFunc po g1)"
  by (simp add: New_def captureProvider_def Let_def)

text \<open>
  C1. For every policy and tracer, the middleware list that \<open>New\<close> passes on is, in this
  order: tracing, datasource metrics, http-logger, user-agent, basic authentication, custom
  headers, response limit, and then the SigV4 middleware as the last element if and only
  if \<open>SigV4AuthEnabled\<close> is set (it occurs nowhere otherwise). The list does not depend
  on the global state or on the sanitizer: a second build from the same policy and tracer,
  in the state \<open>g1\<close> that the first one left or in any other state \<open>g'\<close>, yields the same
  list, hence the same sequence of names under any naming \<open>nm\<close> of middlewares.
\<close>

theorem New_middlewares_order:
  "case New captureProvider san cfg tracer g of (po, g1) \<Rightarrow>
     Middlewares po =
       [TracingMiddleware (log_New ''httpclient'') tracer,
        DataSourceMetricsMiddleware,
        NamedMiddlewareFunc ''http-logger'' httpLoggerFunc,
        SetUserAgentMiddleware (''Grafana/'' @ BuildVersion cfg),
        BasicAuthenticationMiddleware,
        CustomHeadersMiddleware,
        ResponseLimitMiddleware (ResponseLimit cfg)]
       @ (if SigV4AuthEnabled cfg then [SigV4Middleware (SigV4VerboseLogging cfg)] else [])
   \<and> ((\<exists>v. last (Middlewares po) = SigV4Middleware v) \<longleftrightarrow> SigV4AuthEnabled cfg)
   \<and> ((\<exists>v. SigV4Middleware v \<in> set (Middlewares po)) \<longleftrightarrow> SigV4AuthEnabled cfg)
   \<and> Middlewares (fst (New captureProvider san cfg tracer g1)) = Middlewares po
   \<and> Middlewares (fst (New captureProvider san' cfg tracer g')) = Middlewares po
   \<and> map nm (Middlewares (fst (New captureProvider san' cfg tracer g'))) =
       map nm (Middlewares po)"
  by (simp add: New_capture httpLoggerMiddleware_def)

theorem New_middlewares_order_witness:
  "Middlewares (fst (New captureProvider rejectEmpty cfg30 (0::nat) globals0)) =
     [TracingMiddleware (log_New ''httpclient'') 0,
      DataSourceMetricsMiddleware,
      NamedMiddlewareFunc ''http-logger'' (httpLoggerFunc :: Options \<Rightarrow> nat RoundTripper \<Rightarrow> _),
      SetUserAgentMiddleware ''Grafana/9.0.0'',
      BasicAuthenticationMiddleware,
      CustomHeadersMiddleware,
      ResponseLimitMiddleware 0]
   \<and> Middlewares (fst (New captureProvider rejectEmpty cfgSigV4 (0::nat) globals0)) =
     [TracingMiddleware (log_New ''httpclient'') 0,
      DataSourceMetricsMiddleware,
      NamedMiddlewareFunc ''http-logger'' (httpLoggerFunc :: Options \<Rightarrow> nat RoundTripper \<Rightarrow> _),
      SetUserAgentMiddleware ''Grafana/9.0.0'',
      BasicAuthenticationMiddleware,
      CustomHeadersMiddleware,
      ResponseLimitMiddleware 0,
      SigV4Middleware True]"
proof -
  note plain = New_middlewares_order
      [where san = rejectEmpty and cfg = cfg30 and tracer = "0::nat" and g = globals0
         and san' = rejectEmpty and g' = globals0
         and nm = "id :: (nat, nat) Middleware \<Rightarrow> (nat, nat) Middleware"]
  note signed = New_middlewares_order
      [where san = rejectEmpty and cfg = cfgSigV4 and tracer = "0::nat" and g = globals0
         and san' = rejectEmpty and g' = globals0
         and nm = "id :: (nat, nat) Middleware \<Rightarrow> (nat, nat) Middleware"]
  have "BuildVersion cfg30 = ''9.0.0''" "ResponseLimit cfg30 = 0" "\<not> SigV4AuthEnabled cfg30"
    "BuildVersion cfgSigV4 = ''9.0.0''" "ResponseLimit cfgSigV4 = 0" "SigV4AuthEnabled cfgSigV4"
    "SigV4VerboseLogging cfgSigV4"
    by (simp_all add: cfg30_def cfgSigV4_def)
  then show ?thesis
    using plain signed by (simp add: case_prod_beta)
qed

text \<open>
  C6, as stated, fails: the resolver is not limited to one run, and it can run after a
  client factory was constructed. \<open>New\<close> called with a timeout of 30 seconds and then again
  with 45 seconds assigns the default policy twice; the first provider function was called
  under 30 seconds, and the second assignment, made after it returned, leaves 45.
\<close>

theorem New_twice_counterexample:
  "assigned globals0 = []
   \<and> fst (New timeoutProvider rejectEmpty cfg30 0 globals0) = 30 * Second
   \<and> length (assigned (snd (New timeoutProvider rejectEmpty cfg45 0
        (snd (New timeoutProvider rejectEmpty cfg30 0 globals0))))) = 2
   \<and> Timeout (DefaultTimeoutOptions (snd (New timeoutProvider rejectEmpty cfg45 0
        (snd (New timeoutProvider rejectEmpty cfg30 0 globals0))))) = 45 * Second"
  by (simp add: New_def timeoutProvider_def Let_def setDefaultTimeoutOptions_def
      globals0_def cfg45_def cfg30_def time_Duration_def)

text \<open>
  C6, amended. In every call of \<open>New\<close> the resolver runs exactly once, synchronously, and
  its write to the default policy happens before the client factory of that call is
  constructed: whatever the provider function is, it is invoked in the global state \<open>g1\<close>
  that \<open>setDefaultTimeoutOptions\<close> left, in which the default policy is the one computed
  from the configuration and exactly one assignment to it has been made since \<open>New\<close>
  began; \<open>New\<close> then returns the function's result, with no assignment of its own after
  the call. Nothing limits the resolver to one run: a further call of \<open>New\<close>, in the state
  the first one left, assigns the default policy once more.
\<close>

theorem New_sets_defaults_before_provider:
  "case (New captureProvider san cfg tracer g :: ('t, 'x) ProviderOptions \<times> globals) of
     (po, g1) \<Rightarrow>
       New newProviderFunc san cfg tracer g = newProviderFunc po g1
     \<and> g1 = setDefaultTimeoutOptions cfg g
     \<and> assigned g1 = assigned g @ [DefaultTimeoutOptions g1]
     \<and> length (assigned g1) = length (assigned g) + 1
     \<and> Timeout (DefaultTimeoutOptions g1) = time_Duration (DataProxyTimeout cfg) * Second
     \<and> MaxIdleConns (DefaultTimeoutOptions g1) = DataProxyMaxIdleConns cfg
     \<and> (case (New captureProvider san' cfg' tracer g1 :: ('t, 'x) ProviderOptions \<times> globals) of
          (po2, g2) \<Rightarrow>
            New newProviderFunc san' cfg' tracer g1 = newProviderFunc po2 g2
          \<and> g2 = setDefaultTimeoutOptions cfg' g1
          \<and> assigned g2 = assigned g @ [DefaultTimeoutOptions g1, DefaultTimeoutOptions g2])"
proof -
  have call: "New newProviderFunc s c tracer h =
      newProviderFunc (fst (New captureProvider s c tracer h)) (setDefaultTimeoutOptions c h)"
    for s c h
    by (simp add: New_def captureProvider_def Let_def)
  show ?thesis
    by (simp add: New_capture assigned_set DefaultTimeoutOptions_set call [of san cfg g]
        call [of san' cfg' "setDefaultTimeoutOptions cfg g"])
qed

theorem New_sets_defaults_before_provider_witness:
  "fst (New timeoutProvider rejectEmpty cfg30 0 globals0) = 30 * Second
   \<and> assigned (snd (New timeoutProvider rejectEmpty cfg30 0 globals0))
       = [DefaultTimeoutOptions (setDefaultTimeoutOptions cfg30 globals0)]
   \<and> Timeout (DefaultTimeoutOptions globals0) = 60 * Second
   \<and> assigned (snd (New timeoutProvider rejectEmpty cfg45 0
        (setDefaultTimeoutOptions cfg30 globals0)))
       = [DefaultTimeoutOptions (setDefaultTimeoutOptions cfg30 globals0),
          DefaultTimeoutOptions
            (setDefaultTimeoutOptions cfg45 (setDefaultTimeoutOptions cfg30 globals0))]"
proof -
  note call = New_sets_defaults_before_provider
      [where newProviderFunc = timeoutProvider
         and san = rejectEmpty and cfg = cfg30 and tracer = 0 and g = globals0
         and san' = rejectEmpty and cfg' = cfg45]
  have "assigned globals0 = []" "Timeout (DefaultTimeoutOptions globals0) = 60 * Second"
    by (simp_all add: globals0_def sdkDefaults_def)
  moreover have "time_Duration (DataProxyTimeout cfg30) = 30"
    by (simp add: cfg30_def time_Duration_def)
  ultimately show ?thesis
    using call
    by (simp add: New_capture timeoutProvider_def assigned_set DefaultTimeoutOptions_set)
qed

end
